theory Spec2Isabelle
  imports Main "HOL-Library.Word"
begin

section \<open>The model instance of backend\_model\_instance.h\<close>

text \<open>
  A shallow embedding of \<^verbatim>\<open>TritonModelInstance\<close> (src/backend\_model\_instance.h).
  The header defines two pieces of behaviour inline: the class \<^verbatim>\<open>Signature\<close>
  (constructor, \<^verbatim>\<open>operator==\<close>, \<^verbatim>\<open>operator!=\<close>, \<^verbatim>\<open>EnableMatching\<close>,
  \<^verbatim>\<open>DisableMatching\<close>) and the constructor of the struct \<^verbatim>\<open>WarmupData\<close>.
  The member functions \<^verbatim>\<open>SetInstances\<close>, \<^verbatim>\<open>Schedule\<close>, \<^verbatim>\<open>Execute\<close> and
  those of \<^verbatim>\<open>TritonBackendThread\<close> are declared only; their bodies are not part of
  the sources.
\<close>

subsection \<open>Signature\<close>

text \<open>
  \<^verbatim>\<open>class Signature\<close>, lines 61 to 87. The members are
  \<^verbatim>\<open>const inference::ModelInstanceGroup group_config_\<close>,
  \<^verbatim>\<open>const int32_t device_id_\<close> and \<^verbatim>\<open>bool can_match_\<close>. The protobuf message
  \<^verbatim>\<open>ModelInstanceGroup\<close> comes from model\_config.pb.h, which is not part of the
  sources, so the type of the configuration is the type parameter \<open>'cfg\<close>.
\<close>

record 'cfg Signature =
  group_config :: 'cfg
  device_id :: "32 word"
  can_match :: bool

text \<open>
  The constructor, lines 63 to 67:
  \<^verbatim>\<open>: group_config_(group_config), device_id_(device_id), can_match_(true)\<close>.
\<close>

definition Signature :: "'cfg \<Rightarrow> 32 word \<Rightarrow> 'cfg Signature" where
  "Signature cfg dev = \<lparr>group_config = cfg, device_id = dev, can_match = True\<rparr>"

text \<open>
  \<^verbatim>\<open>operator==\<close>, lines 70 to 74:
  \<^verbatim>\<open>return can_match_ && rhs.can_match_ && device_id_ == rhs.device_id_ &&
         EquivalentInInstanceConfig(group_config_, rhs.group_config_);\<close>
  The function \<^verbatim>\<open>EquivalentInInstanceConfig\<close> is declared in model\_config\_utils.h,
  which is not part of the sources: it is the parameter \<open>equivalent\<close>. It is a pure
  predicate of two configurations, so the short-circuit evaluation of \<^verbatim>\<open>&&\<close> is
  the conjunction.
\<close>

definition operator_eq ::
  "('cfg \<Rightarrow> 'cfg \<Rightarrow> bool) \<Rightarrow> 'cfg Signature \<Rightarrow> 'cfg Signature \<Rightarrow> bool" where
  "operator_eq equivalent lhs rhs =
     (can_match lhs \<and> can_match rhs \<and> device_id lhs = device_id rhs \<and>
      equivalent (group_config lhs) (group_config rhs))"

text \<open>\<^verbatim>\<open>operator!=\<close>, line 75: \<^verbatim>\<open>return !(*this == rhs);\<close>\<close>

definition operator_neq ::
  "('cfg \<Rightarrow> 'cfg \<Rightarrow> bool) \<Rightarrow> 'cfg Signature \<Rightarrow> 'cfg Signature \<Rightarrow> bool" where
  "operator_neq equivalent lhs rhs = (\<not> operator_eq equivalent lhs rhs)"

text \<open>
  Lines 80 and 81: \<^verbatim>\<open>void EnableMatching() { can_match_ = true; }\<close> and
  \<^verbatim>\<open>void DisableMatching() { can_match_ = false; }\<close>. The object is mutated in
  place; the model returns the updated signature.
\<close>

definition EnableMatching :: "'cfg Signature \<Rightarrow> 'cfg Signature" where
  "EnableMatching s = s\<lparr>can_match := True\<rparr>"

definition DisableMatching :: "'cfg Signature \<Rightarrow> 'cfg Signature" where
  "DisableMatching s = s\<lparr>can_match := False\<rparr>"

subsection \<open>A concrete instance-group configuration\<close>

text \<open>
  Modelled from the spec: the message \<^verbatim>\<open>inference::ModelInstanceGroup\<close>
  (model\_config.pb.h) and the function \<^verbatim>\<open>EquivalentInInstanceConfig\<close>
  (model\_config\_utils.h) are missing from the sources. The spec (section 4.1) says that
  the equivalence "must ignore fields irrelevant to runtime behavior, such as a raw
  instance count, while comparing kind, profiles, host policy, and rate-limiter
  settings". The record below has exactly these fields. The theorems about
  \<open>Signature\<close> hold for every equivalence; this one is used to run them on concrete
  signatures.
\<close>

text \<open>
  Modelled from the spec: the kind of an instance group ("kind (CPU/accelerator/custom)",
  section 6); the enumeration of model\_config.pb.h is missing from the sources.
\<close>

datatype Kind = KIND_AUTO | KIND_GPU | KIND_CPU | KIND_MODEL

text \<open>
  Modelled from the spec: the fields of an instance group that section 4.1 names.
\<close>

record ModelInstanceGroup =
  kind :: Kind
  replica_count :: "32 word"
  profile :: "string list"
  host_policy :: string
  rate_limiter :: "(string \<times> 32 word) list"

text \<open>
  Modelled from the spec: \<^verbatim>\<open>EquivalentInInstanceConfig\<close> compares kind, profiles,
  host policy and rate-limiter settings, and ignores the replica count.
\<close>

definition EquivalentInInstanceConfig :: "ModelInstanceGroup \<Rightarrow> ModelInstanceGroup \<Rightarrow> bool" where
  "EquivalentInInstanceConfig a b =
     (kind a = kind b \<and> profile a = profile b \<and> host_policy a = host_policy b \<and>
      rate_limiter a = rate_limiter b)"

text \<open>A group of GPU instances with the replica count \<open>n\<close>.\<close>

definition gpu_group :: "32 word \<Rightarrow> ModelInstanceGroup" where
  "gpu_group n = \<lparr>kind = KIND_GPU, replica_count = n, profile = [''fp16''],
     host_policy = ''gpu_0'', rate_limiter = []\<rparr>"

subsection \<open>WarmupData\<close>

text \<open>
  \<^verbatim>\<open>struct WarmupData\<close>, lines 157 to 174. \<^verbatim>\<open>size_t\<close> is a 64-bit unsigned
  integer. The requests and the placeholder buffers are owned through
  \<^verbatim>\<open>unique_ptr\<close>: a buffer that may be null is an option; their element types
  (\<^verbatim>\<open>InferenceRequest\<close>, \<^verbatim>\<open>AllocatedMemory\<close>) are declared elsewhere and are
  type parameters.
\<close>

record ('req, 'mem) WarmupData =
  sample_name :: string
  count :: "64 word"
  requests :: "'req list"
  zero_data :: "'mem option"
  random_data :: "'mem option"
  provided_data :: "string list"

text \<open>
  \<^verbatim>\<open>std::max(a, b)\<close> is \<^verbatim>\<open>(a < b) ? b : a\<close>, here on \<^verbatim>\<open>size_t\<close>, where
  \<^verbatim>\<open><\<close> is the unsigned order.
\<close>

definition std_max :: "64 word \<Rightarrow> 64 word \<Rightarrow> 64 word" where
  "std_max a b = (if a < b then b else a)"

text \<open>
  The constructor, lines 158 to 161:
  \<^verbatim>\<open>: sample_name_(sample_name), count_(std::max(count, size_t{1}))\<close>. The other
  members are default-initialised: empty vectors and null pointers.
\<close>

definition WarmupData :: "string \<Rightarrow> 64 word \<Rightarrow> ('req, 'mem) WarmupData" where
  "WarmupData name c =
     \<lparr>sample_name = name, count = std_max c 1, requests = [],
      zero_data = None, random_data = None, provided_data = []\<rparr>"

subsection \<open>SetInstances\<close>

text \<open>
  Modelled from the spec: the body of \<^verbatim>\<open>TritonModelInstance::SetInstances\<close>
  (declared at lines 89 to 93), of \<^verbatim>\<open>CreateInstance\<close> (lines 184 to 192) and of
  \<^verbatim>\<open>InitAndWarmUpModelInstance\<close> (line 136), and the class \<^verbatim>\<open>Status\<close> (status.h)
  are missing from the sources. The spec (section 4.5) says: "Failure of any single
  instance's construction or initialization aborts the entire SetInstances call with the
  originating status -- partial instance sets are not left running (all successfully
  created thread/instance pairs created so far are torn down)."

  A status is success or a failure carrying its code and message (\<open>'e\<close>). The
  descriptors of the instances to create (\<open>'d\<close>, one per expanded signature) are
  processed in order. Construction of a thread/instance pair (\<open>'p\<close>) may depend on the
  pairs created so far, since an instance may be attached to an existing thread; it is
  the parameter \<open>CreateInstance\<close>. Initialization and warm-up of a created pair is the
  parameter \<open>InitAndWarmUp\<close>. The result is the status together with the pairs left
  running and the pairs torn down.
\<close>

text \<open>
  Modelled from the spec: a status result (status.h is missing from the sources),
  success or a failure with its code and message.
\<close>

datatype 'e Status = Success | Failure 'e

text \<open>
  Modelled from the spec: the outcome of \<^verbatim>\<open>SetInstances\<close> next to its status, the
  thread/instance pairs left running and the pairs torn down.
\<close>

record 'p InstanceSet =
  running :: "'p list"
  torn_down :: "'p list"

text \<open>
  Modelled from the spec: one instance of \<^verbatim>\<open>SetInstances\<close>, construction, then
  initialization. A failure is returned with the pairs
  that exist at that moment: those created before, and the new pair when it was
  constructed and its initialization failed.
\<close>

definition create_and_init ::
  "('p list \<Rightarrow> 'd \<Rightarrow> 'e + 'p) \<Rightarrow> ('p \<Rightarrow> 'e Status) \<Rightarrow> 'p list \<Rightarrow> 'd \<Rightarrow>
   ('e \<times> 'p list) + 'p" where
  "create_and_init CreateInstance InitAndWarmUp created d =
     (case CreateInstance created d of
        Inl e \<Rightarrow> Inl (e, created)
      | Inr p \<Rightarrow>
          (case InitAndWarmUp p of
             Failure e \<Rightarrow> Inl (e, created @ [p])
           | Success \<Rightarrow> Inr p))"

text \<open>
  Modelled from the spec: the loop of \<^verbatim>\<open>SetInstances\<close> over the descriptors, with
  the pairs created so far. The first failure aborts the call with its status and tears
  down the pairs that exist; without a failure every pair is left running.
\<close>

fun SetInstances_from ::
  "('p list \<Rightarrow> 'd \<Rightarrow> 'e + 'p) \<Rightarrow> ('p \<Rightarrow> 'e Status) \<Rightarrow> 'p list \<Rightarrow> 'd list \<Rightarrow>
   'e Status \<times> 'p InstanceSet" where
  "SetInstances_from CreateInstance InitAndWarmUp created [] =
     (Success, \<lparr>running = created, torn_down = []\<rparr>)"
| "SetInstances_from CreateInstance InitAndWarmUp created (d # ds) =
     (case create_and_init CreateInstance InitAndWarmUp created d of
        Inl (e, made) \<Rightarrow> (Failure e, \<lparr>running = [], torn_down = made\<rparr>)
      | Inr p \<Rightarrow> SetInstances_from CreateInstance InitAndWarmUp (created @ [p]) ds)"

text \<open>
  Modelled from the spec: \<^verbatim>\<open>SetInstances\<close> starts with no pair created.
\<close>

definition SetInstances ::
  "('p list \<Rightarrow> 'd \<Rightarrow> 'e + 'p) \<Rightarrow> ('p \<Rightarrow> 'e Status) \<Rightarrow> 'd list \<Rightarrow>
   'e Status \<times> 'p InstanceSet" where
  "SetInstances CreateInstance InitAndWarmUp ds =
     SetInstances_from CreateInstance InitAndWarmUp [] ds"

text \<open>
  Modelled from the spec: the pairs that exist once every descriptor of a list has been constructed and
  initialized without a failure; \<open>None\<close> when one of them fails.
\<close>

fun all_created ::
  "('p list \<Rightarrow> 'd \<Rightarrow> 'e + 'p) \<Rightarrow> ('p \<Rightarrow> 'e Status) \<Rightarrow> 'p list \<Rightarrow> 'd list \<Rightarrow>
   'p list option" where
  "all_created CreateInstance InitAndWarmUp created [] = Some created"
| "all_created CreateInstance InitAndWarmUp created (d # ds) =
     (case create_and_init CreateInstance InitAndWarmUp created d of
        Inl _ \<Rightarrow> None
      | Inr p \<Rightarrow> all_created CreateInstance InitAndWarmUp (created @ [p]) ds)"

text \<open>
  A concrete construction and initialization to run the model on: a pair is a thread
  number and the instance's name; an empty name cannot be constructed, and the instance
  named "broken" fails to initialize.
\<close>

definition name_create :: "(nat \<times> string) list \<Rightarrow> string \<Rightarrow> string + (nat \<times> string)" where
  "name_create created name =
     (if name = [] then Inl ''invalid argument'' else Inr (length created, name))"

definition name_init :: "nat \<times> string \<Rightarrow> string Status" where
  "name_init p = (if snd p = ''broken'' then Failure ''initialize failed'' else Success)"

subsection \<open>The backend thread and Schedule\<close>

text \<open>
  Modelled from the spec: the bodies of \<^verbatim>\<open>TritonModelInstance::Schedule\<close> (declared
  at lines 118 to 120), \<^verbatim>\<open>Execute\<close> (line 198) and of the member functions of
  \<^verbatim>\<open>TritonBackendThread\<close> (lines 129 to 155) are missing from the sources. The spec says:
  "Schedule() is non-blocking from the caller's perspective (enqueue-and-return)"
  and "work is drained synchronously in arrival order per owned instance" (section 5);
  "The loop body, for each owned instance in registration order, performs queued
  execution requests to completion before moving to the next" (section 4.3);
  \<^verbatim>\<open>AddModelInstance\<close> "registers an additional instance to be [...] served on this
  thread".

  The thread has the member \<^verbatim>\<open>std::deque<TritonModelInstance*> model_instances_\<close>
  (line 151). The model adds the work queued for each instance (a list of batches, the
  oldest first) and the calls of \<^verbatim>\<open>Execute\<close> the backend has observed (instance and
  batch, the oldest first). An instance is \<open>'i\<close>, a request \<open>'r\<close>.
\<close>

record ('i, 'r) TritonBackendThread =
  model_instances :: "'i list"
  queued :: "'i \<Rightarrow> 'r list list"
  executed :: "('i \<times> 'r list) list"

text \<open>
  Modelled from the spec: \<^verbatim>\<open>CreateBackendThread\<close> gives a thread that owns the
  instance it is created for, with nothing queued and nothing executed.
\<close>

definition CreateBackendThread :: "'i \<Rightarrow> ('i, 'r) TritonBackendThread" where
  "CreateBackendThread i = \<lparr>model_instances = [i], queued = (\<lambda>_. []), executed = []\<rparr>"

text \<open>
  Modelled from the spec: \<^verbatim>\<open>AddModelInstance\<close> registers one more instance, after
  those registered before.
\<close>

definition AddModelInstance ::
  "'i \<Rightarrow> ('i, 'r) TritonBackendThread \<Rightarrow> ('i, 'r) TritonBackendThread" where
  "AddModelInstance i th = th\<lparr>model_instances := model_instances th @ [i]\<rparr>"

text \<open>
  Modelled from the spec: \<^verbatim>\<open>Schedule\<close> for the instance \<open>i\<close> enqueues the batch
  and returns.
\<close>

definition Schedule ::
  "'i \<Rightarrow> 'r list \<Rightarrow> ('i, 'r) TritonBackendThread \<Rightarrow> ('i, 'r) TritonBackendThread" where
  "Schedule i reqs th = th\<lparr>queued := (queued th)(i := queued th i @ [reqs])\<rparr>"

text \<open>
  Modelled from the spec: the queued work of one instance performed to completion, one call of
  \<^verbatim>\<open>Execute\<close> for each queued batch, in arrival order.
\<close>

definition Execute_queued ::
  "'i \<Rightarrow> ('i, 'r) TritonBackendThread \<Rightarrow> ('i, 'r) TritonBackendThread" where
  "Execute_queued i th =
     th\<lparr>executed := executed th @ map (Pair i) (queued th i),
        queued := (queued th)(i := [])\<rparr>"

text \<open>
  Modelled from the spec: one pass of the loop of \<^verbatim>\<open>BackendThread\<close> over the owned
  instances, in registration order.
\<close>

definition BackendThread_body :: "('i, 'r) TritonBackendThread \<Rightarrow> ('i, 'r) TritonBackendThread" where
  "BackendThread_body th = fold Execute_queued (model_instances th) th"

text \<open>
  What happens to a thread, in any order: a caller schedules a batch to an instance, an
  instance is added, the loop makes a pass.
\<close>

datatype ('i, 'r) event = Call_Schedule 'i "'r list" | Call_AddModelInstance 'i | Loop_body

fun step :: "('i, 'r) event \<Rightarrow> ('i, 'r) TritonBackendThread \<Rightarrow> ('i, 'r) TritonBackendThread" where
  "step (Call_Schedule i reqs) th = Schedule i reqs th"
| "step (Call_AddModelInstance i) th = AddModelInstance i th"
| "step Loop_body th = BackendThread_body th"

definition run ::
  "('i, 'r) event list \<Rightarrow> ('i, 'r) TritonBackendThread \<Rightarrow> ('i, 'r) TritonBackendThread" where
  "run evs th = fold step evs th"

text \<open>The batches the backend has observed for the instance \<open>i\<close>, in order.\<close>

definition observed :: "'i \<Rightarrow> ('i, 'r) TritonBackendThread \<Rightarrow> 'r list list" where
  "observed i th = map snd (filter (\<lambda>c. fst c = i) (executed th))"

text \<open>The batches scheduled to the instance \<open>i\<close>, in the order of the calls.\<close>

fun scheduled :: "'i \<Rightarrow> ('i, 'r) event list \<Rightarrow> 'r list list" where
  "scheduled i [] = []"
| "scheduled i (Call_Schedule j reqs # evs) =
     (if j = i then reqs # scheduled i evs else scheduled i evs)"
| "scheduled i (Call_AddModelInstance j # evs) = scheduled i evs"
| "scheduled i (Loop_body # evs) = scheduled i evs"

text \<open>What was observed for \<open>i\<close>, followed by what is still queued for it.\<close>

definition history :: "'i \<Rightarrow> ('i, 'r) TritonBackendThread \<Rightarrow> 'r list list" where
  "history i th = observed i th @ queued th i"

text \<open>
  A concrete run: two instances share the thread; batches are scheduled to both, before
  and after a pass of the loop.
\<close>

definition two_instances :: "(nat, string) event list" where
  "two_instances =
     [Call_Schedule 0 [''r1''], Call_AddModelInstance 1, Call_Schedule 1 [''s1''],
      Call_Schedule 0 [''r2'', ''r3''], Loop_body, Call_Schedule 1 [''s2''],
      Call_Schedule 0 [''r4'']]"

section \<open>Properties of the signature\<close>

text \<open>
  C1. For every pair of signatures, \<^verbatim>\<open>operator==\<close> returns true if and only if both
  signatures are matchable, their device ids are equal, and their instance-group
  configurations are equivalent under \<^verbatim>\<open>EquivalentInInstanceConfig\<close> (whatever that
  predicate is).
\<close>

theorem operator_eq_iff:
  "operator_eq equivalent s t \<longleftrightarrow>
     (can_match s \<and> can_match t) \<and> device_id s = device_id t \<and>
     equivalent (group_config s) (group_config t)"
  by (simp add: operator_eq_def)

text \<open>
  C2. A signature on which \<^verbatim>\<open>DisableMatching\<close> has been called compares unequal to
  every signature \<open>t\<close>, in both argument orders; also to itself, and to a freshly
  constructed signature with the same device id and the same configuration.
\<close>

theorem DisableMatching_never_equal:
  "\<not> operator_eq equivalent (DisableMatching s) t \<and>
   \<not> operator_eq equivalent t (DisableMatching s) \<and>
   \<not> operator_eq equivalent (DisableMatching s) (DisableMatching s) \<and>
   \<not> operator_eq equivalent (DisableMatching s) (Signature (group_config s) (device_id s)) \<and>
   \<not> operator_eq equivalent (Signature (group_config s) (device_id s)) (DisableMatching s)"
  by (simp add: operator_eq_def DisableMatching_def)

text \<open>
  C7. \<^verbatim>\<open>EnableMatching\<close> and \<^verbatim>\<open>DisableMatching\<close> change the matchable flag only:
  the device id and the configuration of the signature are what they were, and the
  signature after the call is the signature before it with the flag set.
\<close>

theorem matching_toggle_frame:
  "group_config (EnableMatching s) = group_config s \<and>
   device_id (EnableMatching s) = device_id s \<and>
   group_config (DisableMatching s) = group_config s \<and>
   device_id (DisableMatching s) = device_id s \<and>
   EnableMatching s = s\<lparr>can_match := True\<rparr> \<and>
   DisableMatching s = s\<lparr>can_match := False\<rparr>"
  by (simp add: EnableMatching_def DisableMatching_def)

text \<open>
  C8. A freshly constructed signature is matchable: two new signatures with the same
  device id and equivalent configurations compare equal, with no call of
  \<^verbatim>\<open>EnableMatching\<close>.
\<close>

theorem fresh_signatures_equal:
  assumes "equivalent cfg cfg'"
  shows "can_match (Signature cfg dev) \<and> can_match (Signature cfg' dev) \<and>
         operator_eq equivalent (Signature cfg dev) (Signature cfg' dev)"
  using assms by (simp add: operator_eq_def Signature_def)

text \<open>
  Two groups that differ in their replica count only are equivalent, and the fresh
  signatures on device 0 compare equal.
\<close>

theorem fresh_signatures_equal_witness:
  "EquivalentInInstanceConfig (gpu_group 1) (gpu_group 2) \<and>
   gpu_group 1 \<noteq> gpu_group 2 \<and>
   operator_eq EquivalentInInstanceConfig (Signature (gpu_group 1) 0) (Signature (gpu_group 2) 0)"
proof -
  have h: "EquivalentInInstanceConfig (gpu_group 1) (gpu_group 2)"
    by (simp add: EquivalentInInstanceConfig_def gpu_group_def)
  have d: "gpu_group 1 \<noteq> gpu_group 2"
    by (simp add: gpu_group_def)
  from fresh_signatures_equal [of EquivalentInInstanceConfig "gpu_group 1" "gpu_group 2" 0, OF h] h d
  show ?thesis by simp
qed

text \<open>
  C9. Inequality is the negation of equality: \<open>s != t\<close> returns true if and only if
  \<open>s == t\<close> returns false.
\<close>

theorem operator_neq_iff:
  "(operator_neq equivalent s t = True) = (operator_eq equivalent s t = False)"
  by (simp add: operator_neq_def)

text \<open>
  C10, as stated, fails on a signature that is already disabled:
  \<^verbatim>\<open>EnableMatching\<close> sets the flag to true whatever it was, so after
  \<^verbatim>\<open>DisableMatching\<close> and \<^verbatim>\<open>EnableMatching\<close> the signature is matchable. Here the
  signature was disabled before the two calls; afterwards it differs from its prior
  state and compares equal to a fresh signature that it did not equal before.
\<close>

theorem toggle_roundtrip_counterexample:
  "EnableMatching (DisableMatching (DisableMatching (Signature (gpu_group 1) 0))) \<noteq>
     DisableMatching (Signature (gpu_group 1) 0) \<and>
   operator_eq EquivalentInInstanceConfig
     (EnableMatching (DisableMatching (DisableMatching (Signature (gpu_group 1) 0))))
     (Signature (gpu_group 1) 0) \<and>
   \<not> operator_eq EquivalentInInstanceConfig
     (DisableMatching (Signature (gpu_group 1) 0)) (Signature (gpu_group 1) 0)"
  by (simp add: operator_eq_def EnableMatching_def DisableMatching_def Signature_def
      EquivalentInInstanceConfig_def)

text \<open>
  C10, amended. For every signature that is matchable when \<^verbatim>\<open>DisableMatching\<close> is
  called, \<^verbatim>\<open>DisableMatching\<close> followed by \<^verbatim>\<open>EnableMatching\<close> restores it exactly, and
  its equality against any signature \<open>t\<close>, on either side, is what it was before.
\<close>

theorem toggle_roundtrip:
  assumes "can_match s"
  shows "EnableMatching (DisableMatching s) = s \<and>
         operator_eq equivalent (EnableMatching (DisableMatching s)) t =
           operator_eq equivalent s t \<and>
         operator_eq equivalent t (EnableMatching (DisableMatching s)) =
           operator_eq equivalent t s"
proof -
  from assms have "EnableMatching (DisableMatching s) = s"
    by (simp add: EnableMatching_def DisableMatching_def)
  then show ?thesis by simp
qed

theorem toggle_roundtrip_witness:
  "can_match (Signature (gpu_group 1) 0) \<and>
   EnableMatching (DisableMatching (Signature (gpu_group 1) 0)) = Signature (gpu_group 1) 0"
proof -
  have h: "can_match (Signature (gpu_group 1) 0)"
    by (simp add: Signature_def)
  from toggle_roundtrip [OF h] h show ?thesis by simp
qed

section \<open>Properties of the warm-up data\<close>

lemma std_max_one: "std_max c 1 = max c 1"
  unfolding std_max_def max_def
  by (simp add: word_le_less_eq)

text \<open>
  C3. The constructed \<^verbatim>\<open>WarmupData\<close> has the repeat count \<open>max c 1\<close> (as a 64-bit
  word, and read as a natural number), and the data constructed for a count of 0 is the
  data constructed for a count of 1, so that whatever consumes the sample cannot tell
  them apart.
\<close>

theorem WarmupData_count:
  "count (WarmupData name c :: ('req, 'mem) WarmupData) = max c 1 \<and>
   unat (count (WarmupData name c :: ('req, 'mem) WarmupData)) = max (unat c) 1 \<and>
   (WarmupData name 0 :: ('req, 'mem) WarmupData) = WarmupData name 1"
  by (simp add: WarmupData_def std_max_one) (simp add: max_def word_le_nat_alt)

section \<open>Properties of SetInstances\<close>

lemma SetInstances_from_failure:
  "all_created C I created ds1 = Some ps \<Longrightarrow> create_and_init C I ps d = Inl (e, made) \<Longrightarrow>
   SetInstances_from C I created (ds1 @ d # ds2) =
     (Failure e, \<lparr>running = [], torn_down = made\<rparr>)"
  by (induction ds1 arbitrary: created) (auto split: sum.splits)

lemma create_and_init_made:
  "create_and_init C I ps d = Inl (e, made) \<Longrightarrow> set ps \<subseteq> set made"
  by (auto simp: create_and_init_def split: sum.splits Status.splits)

text \<open>
  C4. When the instances of \<open>ds1\<close> are constructed and initialized, giving the pairs
  \<open>ps\<close>, and the construction or the initialization of the next instance \<open>d\<close>
  fails with the status \<open>e\<close>, then \<^verbatim>\<open>SetInstances\<close> returns that status whatever
  follows \<open>d\<close>, no pair is left running, and every pair created before is torn
  down.
\<close>

theorem SetInstances_atomic:
  assumes "all_created CreateInstance InitAndWarmUp [] ds1 = Some ps"
    and "create_and_init CreateInstance InitAndWarmUp ps d = Inl (e, made)"
  shows "fst (SetInstances CreateInstance InitAndWarmUp (ds1 @ d # ds2)) = Failure e \<and>
         running (snd (SetInstances CreateInstance InitAndWarmUp (ds1 @ d # ds2))) = [] \<and>
         set ps \<subseteq> set (torn_down (snd (SetInstances CreateInstance InitAndWarmUp (ds1 @ d # ds2))))"
proof -
  have "SetInstances CreateInstance InitAndWarmUp (ds1 @ d # ds2) =
      (Failure e, \<lparr>running = [], torn_down = made\<rparr>)"
    unfolding SetInstances_def using assms by (rule SetInstances_from_failure)
  moreover have "set ps \<subseteq> set made"
    using assms(2) by (rule create_and_init_made)
  ultimately show ?thesis by simp
qed

text \<open>
  The third of four instances fails to initialize: the first two pairs, and the pair of
  the failed instance, are torn down, and the fourth instance is never created.
\<close>

theorem SetInstances_atomic_witness:
  "all_created name_create name_init [] [''a'', ''b''] = Some [(0, ''a''), (1, ''b'')] \<and>
   create_and_init name_create name_init [(0, ''a''), (1, ''b'')] ''broken'' =
     Inl (''initialize failed'', [(0, ''a''), (1, ''b''), (2, ''broken'')]) \<and>
   fst (SetInstances name_create name_init [''a'', ''b'', ''broken'', ''c'']) =
     Failure ''initialize failed'' \<and>
   running (snd (SetInstances name_create name_init [''a'', ''b'', ''broken'', ''c''])) = [] \<and>
   {(0, ''a''), (1, ''b'')} \<subseteq>
     set (torn_down (snd (SetInstances name_create name_init [''a'', ''b'', ''broken'', ''c''])))"
proof -
  have h1: "all_created name_create name_init [] [''a'', ''b''] = Some [(0, ''a''), (1, ''b'')]"
    by (simp add: create_and_init_def name_create_def name_init_def)
  have h2: "create_and_init name_create name_init [(0, ''a''), (1, ''b'')] ''broken'' =
     Inl (''initialize failed'', [(0, ''a''), (1, ''b''), (2, ''broken'')])"
    by (simp add: create_and_init_def name_create_def name_init_def)
  from SetInstances_atomic [OF h1 h2, of "[''c'']"] h1 h2 show ?thesis by simp
qed

section \<open>Properties of Schedule\<close>

lemma history_Schedule:
  "history i (Schedule j reqs th) = (if j = i then history i th @ [reqs] else history i th)"
  by (simp add: history_def Schedule_def observed_def)

lemma history_Execute_queued: "history i (Execute_queued j th) = history i th"
  by (simp add: history_def Execute_queued_def observed_def filter_map comp_def)

lemma history_fold_Execute_queued: "history i (fold Execute_queued js th) = history i th"
  by (induction js arbitrary: th) (simp_all add: history_Execute_queued)

lemma history_AddModelInstance: "history i (AddModelInstance j th) = history i th"
  by (simp add: history_def AddModelInstance_def observed_def)

lemma history_step: "history i (step ev th) = history i th @ scheduled i [ev]"
  by (cases ev) (simp_all add: history_Schedule BackendThread_body_def
      history_fold_Execute_queued history_AddModelInstance)

lemma scheduled_append: "scheduled i (evs @ evs') = scheduled i evs @ scheduled i evs'"
  by (induction i evs rule: scheduled.induct) simp_all

lemma history_run: "history i (run evs th) = history i th @ scheduled i evs"
proof (induction evs arbitrary: th)
  case Nil
  show ?case by (simp add: run_def)
next
  case (Cons ev evs)
  have "history i (run (ev # evs) th) = history i (run evs (step ev th))"
    by (simp add: run_def)
  also have "\<dots> = history i (step ev th) @ scheduled i evs"
    using Cons.IH [of "step ev th"] by (simp add: run_def)
  also have "\<dots> = history i th @ scheduled i ([ev] @ evs)"
    unfolding scheduled_append by (simp add: history_step)
  finally show ?case by simp
qed

lemma queued_Execute_queued:
  "queued (Execute_queued j th) i = (if i = j then [] else queued th i)"
  by (simp add: Execute_queued_def)

lemma queued_fold_Execute_queued:
  "queued (fold Execute_queued js th) i = (if i \<in> set js then [] else queued th i)"
  by (induction js arbitrary: th) (auto simp: queued_Execute_queued)

lemma run_append: "run (evs @ evs') th = run evs' (run evs th)"
  by (simp add: run_def)

lemma history_created: "history i (CreateBackendThread i0) = []"
  by (simp add: history_def CreateBackendThread_def observed_def)

text \<open>
  C5. For a thread created with one instance and any sequence of calls of
  \<^verbatim>\<open>Schedule\<close>, of \<^verbatim>\<open>AddModelInstance\<close> and of passes of the loop: the batches
  the backend has observed for an instance \<open>i\<close>, followed by those still queued for it,
  are the batches scheduled to \<open>i\<close>, in the order of the calls; and after one more pass
  of the loop the backend has observed exactly the batches scheduled to an owned instance,
  in that order.
\<close>

theorem Schedule_fifo:
  "observed i (run evs (CreateBackendThread i0)) @ queued (run evs (CreateBackendThread i0)) i
     = scheduled i evs \<and>
   (i \<in> set (model_instances (run evs (CreateBackendThread i0))) \<longrightarrow>
     observed i (run (evs @ [Loop_body]) (CreateBackendThread i0)) = scheduled i evs)"
proof
  show "observed i (run evs (CreateBackendThread i0)) @ queued (run evs (CreateBackendThread i0)) i
     = scheduled i evs"
    using history_run [of i evs "CreateBackendThread i0"]
    by (simp add: history_created) (simp add: history_def)
next
  show "i \<in> set (model_instances (run evs (CreateBackendThread i0))) \<longrightarrow>
     observed i (run (evs @ [Loop_body]) (CreateBackendThread i0)) = scheduled i evs"
  proof
    assume own: "i \<in> set (model_instances (run evs (CreateBackendThread i0)))"
    have q: "queued (run (evs @ [Loop_body]) (CreateBackendThread i0)) i = []"
      using own by (simp add: run_append run_def [of "[Loop_body]"] BackendThread_body_def
          queued_fold_Execute_queued)
    have "history i (run (evs @ [Loop_body]) (CreateBackendThread i0)) =
        scheduled i (evs @ [Loop_body])"
      using history_run [of i "evs @ [Loop_body]" "CreateBackendThread i0"]
      by (simp add: history_created)
    then show "observed i (run (evs @ [Loop_body]) (CreateBackendThread i0)) = scheduled i evs"
      using q by (simp add: history_def scheduled_append)
  qed
qed

text \<open>
  Instance 0 receives r1, then r2 and r3 in one batch, then r4, interleaved with the
  work of instance 1; the backend observes them for instance 0 in that order.
\<close>

theorem Schedule_fifo_witness:
  "0 \<in> set (model_instances (run two_instances (CreateBackendThread 0))) \<and>
   scheduled 0 two_instances = [[''r1''], [''r2'', ''r3''], [''r4'']] \<and>
   observed 0 (run (two_instances @ [Loop_body]) (CreateBackendThread 0)) =
     [[''r1''], [''r2'', ''r3''], [''r4'']]"
proof -
  have own: "0 \<in> set (model_instances (run two_instances (CreateBackendThread 0)))"
    by (simp add: two_instances_def run_def CreateBackendThread_def Schedule_def
        AddModelInstance_def BackendThread_body_def Execute_queued_def)
  have sch: "scheduled 0 two_instances = [[''r1''], [''r2'', ''r3''], [''r4'']]"
    by (simp add: two_instances_def)
  from Schedule_fifo [of 0 two_instances 0] own sch show ?thesis by simp
qed

end
